theory Spec2Isabelle
  imports Main "HOL-Library.Word" "HOL-Library.Monad_Syntax"
begin

unbundle bit_operations_syntax

section \<open>OSRDIO: a WDF driver for the lowest 32 digital I/O lines of the NI PCIe-6509\<close>

text \<open>
  The development embeds the callbacks of \<^verbatim>\<open>OsrDio.cpp\<close> that touch the device
  registers, the device context and the pending queue. A callback is a function on a
  \<open>world\<close>: the device context, the values the device returns on register reads, and
  the trace of everything the callback did to the outside (register reads and writes, the
  request for a DpcForIsr, request completions), in program order. A register access
  through a null \<open>DevBase\<close> is a fault, the value \<open>None\<close>. Debug printing is left out.
\<close>

subsection \<open>Register map (OsrDio.h)\<close>

type_synonym ULONG = "32 word"

datatype DIO_REGISTER =
    CHInCh_Identification_Register
  | Static_Digital_Input_Register
  | Static_Digital_Output_Register
  | DIO_Direction_Register
  | DI_FilterRegister_Port0and1
  | DI_FilterRegister_Port2and3
  | ChangeDetectStatusRegister
  | DI_ChangeIrqRE_Register
  | DI_ChangeIrqFE_Register
  | DI_ChangeDetectLatched_Register
  | GlobalInterruptStatus_Register
  | GlobalInterruptEnable_Register
  | DI_Interrupt_Status_Register
  | ChangeDetectIRQ_Register
  | Interrupt_Mask_Register
  | Interrupt_Status_Register
  | Volatile_Interrupt_Status_Register
  | IntForwarding_ControlStatus
  | IntForwarding_DestinationReg
  | Scrap_Register
  | PCI_Subsystem_ID_Access_Register
  | ScratchpadRegister
  | Signature_Register
  | Joint_Reset_Register
  | TimeSincePowerUpRegister

text \<open>
  Byte offset of each register from BAR 0. Some offsets carry two names, one for the
  register that is read there and one for the register that is written there.
\<close>

fun reg_offset :: "DIO_REGISTER \<Rightarrow> nat" where
  "reg_offset CHInCh_Identification_Register = 0"
| "reg_offset Static_Digital_Input_Register = 0x20530"
| "reg_offset Static_Digital_Output_Register = 0x204B0"
| "reg_offset DIO_Direction_Register = 0x204B4"
| "reg_offset DI_FilterRegister_Port0and1 = 0x2054C"
| "reg_offset DI_FilterRegister_Port2and3 = 0x20550"
| "reg_offset ChangeDetectStatusRegister = 0x20540"
| "reg_offset DI_ChangeIrqRE_Register = 0x20540"
| "reg_offset DI_ChangeIrqFE_Register = 0x20544"
| "reg_offset DI_ChangeDetectLatched_Register = 0x20544"
| "reg_offset GlobalInterruptStatus_Register = 0x20070"
| "reg_offset GlobalInterruptEnable_Register = 0x20078"
| "reg_offset DI_Interrupt_Status_Register = 0x2007E"
| "reg_offset ChangeDetectIRQ_Register = 0x20554"
| "reg_offset Interrupt_Mask_Register = 0x0005C"
| "reg_offset Interrupt_Status_Register = 0x00060"
| "reg_offset Volatile_Interrupt_Status_Register = 0x00068"
| "reg_offset IntForwarding_ControlStatus = 0x22204"
| "reg_offset IntForwarding_DestinationReg = 0x22208"
| "reg_offset Scrap_Register = 0x00200"
| "reg_offset PCI_Subsystem_ID_Access_Register = 0x010AC"
| "reg_offset ScratchpadRegister = 0x20004"
| "reg_offset Signature_Register = 0x20060"
| "reg_offset Joint_Reset_Register = 0x20064"
| "reg_offset TimeSincePowerUpRegister = 0x20064"

definition BIT_NUMBER :: "nat \<Rightarrow> ULONG" where
  "BIT_NUMBER x = push_bit x 1"

definition ChangeDetectErrorIRQ_Acknowledge :: ULONG where
  "ChangeDetectErrorIRQ_Acknowledge = BIT_NUMBER 1"

definition ChangeDetectIRQ_Acknowledge :: ULONG where
  "ChangeDetectIRQ_Acknowledge = BIT_NUMBER 0"

definition ChangeDetectError :: ULONG where
  "ChangeDetectError = BIT_NUMBER 1"

definition ChangeDetectStatus :: ULONG where
  "ChangeDetectStatus = BIT_NUMBER 0"

definition Vol_Int :: ULONG where
  "Vol_Int = BIT_NUMBER 31"

definition Filter_Large_All_Lines :: ULONG where
  "Filter_Large_All_Lines = 0xFFFFFFFF"

subsection \<open>Status codes, requests and queues of the framework\<close>

text \<open>
  The status codes the driver and the framework calls it makes can produce. Their numeric
  values are declared in headers of the platform; only \<open>NT_SUCCESS\<close> is needed of them,
  and of these codes it holds of \<open>STATUS_SUCCESS\<close> alone.
\<close>

datatype NTSTATUS =
    STATUS_SUCCESS
  | STATUS_INVALID_DEVICE_STATE
  | STATUS_NONE_MAPPED
  | STATUS_INVALID_BUFFER_SIZE
  | STATUS_INVALID_PARAMETER
  | STATUS_BUFFER_TOO_SMALL
  | STATUS_NO_MORE_ENTRIES
  | STATUS_WDF_BUSY
  | STATUS_WDF_PAUSED

fun NT_SUCCESS :: "NTSTATUS \<Rightarrow> bool" where
  "NT_SUCCESS STATUS_SUCCESS = True"
| "NT_SUCCESS STATUS_INVALID_DEVICE_STATE = False"
| "NT_SUCCESS STATUS_NONE_MAPPED = False"
| "NT_SUCCESS STATUS_INVALID_BUFFER_SIZE = False"
| "NT_SUCCESS STATUS_INVALID_PARAMETER = False"
| "NT_SUCCESS STATUS_BUFFER_TOO_SMALL = False"
| "NT_SUCCESS STATUS_NO_MORE_ENTRIES = False"
| "NT_SUCCESS STATUS_WDF_BUSY = False"
| "NT_SUCCESS STATUS_WDF_PAUSED = False"

text \<open>
  A request carries the caller's buffers. Every payload of this driver is one ULONG
  (OsrDio\_IOCTL.h), so a buffer is its length in bytes and its first ULONG.
\<close>

record WDFREQUEST =
  ReqId :: nat
  ReqInputLength :: nat
  ReqInputData :: ULONG
  ReqOutputLength :: nat
  ReqOutputData :: ULONG

text \<open>
  A manual queue of the framework: the requests it holds, oldest first, whether it
  accepts new requests, and whether it hands requests over. The pending queue is created
  with the default power management, and a power-managed queue does not hand requests
  over while its device is in a low-power state.
\<close>

record WDFQUEUE =
  QueueRequests :: "WDFREQUEST list"
  QueueAccepting :: bool
  QueueDispatching :: bool

subsection \<open>Device context and world\<close>

record OSRDIO_DEVICE_CONTEXT =
  DevBase :: "nat option"
  MappedLength :: ULONG
  PendingQueue :: WDFQUEUE
  OutputLineMask :: ULONG
  SavedOutputLineState :: ULONG
  LatchedInputLineState :: ULONG

datatype event =
    RegRead DIO_REGISTER ULONG
  | RegWrite DIO_REGISTER ULONG
  | QueueDpcForIsr
  | Complete WDFREQUEST NTSTATUS nat

record world =
  devContext :: OSRDIO_DEVICE_CONTEXT
  hw_in :: "nat \<Rightarrow> ULONG"
  trace :: "event list"

text \<open>
  \<open>hw_in w off\<close> is the value the device returns when the ULONG at byte offset \<open>off\<close>
  is read. No callback reads an offset twice, so one value for each offset describes
  every read of one invocation.
\<close>

definition READ_REGISTER_ULONG :: "DIO_REGISTER \<Rightarrow> world \<Rightarrow> (ULONG \<times> world) option" where
  "READ_REGISTER_ULONG r w =
     (case DevBase (devContext w) of
        None \<Rightarrow> None
      | Some base \<Rightarrow>
          (let v = hw_in w (reg_offset r)
           in Some (v, w\<lparr>trace := trace w @ [RegRead r v]\<rparr>)))"

definition WRITE_REGISTER_ULONG :: "DIO_REGISTER \<Rightarrow> ULONG \<Rightarrow> world \<Rightarrow> world option" where
  "WRITE_REGISTER_ULONG r v w =
     (case DevBase (devContext w) of
        None \<Rightarrow> None
      | Some base \<Rightarrow> Some (w\<lparr>trace := trace w @ [RegWrite r v]\<rparr>))"

text \<open>
  The value a register holds after a trace: the last value written at its offset, if any.
\<close>

fun last_write :: "nat \<Rightarrow> event list \<Rightarrow> ULONG option" where
  "last_write off [] = None"
| "last_write off (RegWrite r v # es) =
     (case last_write off es of
        Some v' \<Rightarrow> Some v'
      | None \<Rightarrow> if reg_offset r = off then Some v else None)"
| "last_write off (e # es) = last_write off es"

subsection \<open>Framework calls\<close>

text \<open>
  The calls into the framework that the callbacks make, with the behaviour the framework
  documents for them. Retrieving a buffer fails when the buffer is empty or shorter than
  the size asked for. Forwarding appends the request to the queue, unless the queue does
  not accept requests. Retrieving the next request takes the oldest one; it fails with
  \<open>STATUS_WDF_PAUSED\<close> on a queue that does not hand requests over, whatever the queue
  holds, and with \<open>STATUS_NO_MORE_ENTRIES\<close> on an empty queue. Completing a request and
  asking for the DpcForIsr are recorded in the trace.
\<close>

definition WdfRequestRetrieveOutputBuffer :: "WDFREQUEST \<Rightarrow> nat \<Rightarrow> NTSTATUS" where
  "WdfRequestRetrieveOutputBuffer Request MinimumRequiredSize =
     (if ReqOutputLength Request = 0 then STATUS_BUFFER_TOO_SMALL
      else if ReqOutputLength Request < MinimumRequiredSize then STATUS_BUFFER_TOO_SMALL
      else STATUS_SUCCESS)"

definition WdfRequestRetrieveInputBuffer :: "WDFREQUEST \<Rightarrow> nat \<Rightarrow> NTSTATUS" where
  "WdfRequestRetrieveInputBuffer Request MinimumRequiredSize =
     (if ReqInputLength Request = 0 then STATUS_BUFFER_TOO_SMALL
      else if ReqInputLength Request < MinimumRequiredSize then STATUS_BUFFER_TOO_SMALL
      else STATUS_SUCCESS)"

definition WdfRequestForwardToIoQueue :: "WDFREQUEST \<Rightarrow> WDFQUEUE \<Rightarrow> NTSTATUS \<times> WDFQUEUE" where
  "WdfRequestForwardToIoQueue Request DestinationQueue =
     (if QueueAccepting DestinationQueue
      then (STATUS_SUCCESS,
            DestinationQueue\<lparr>QueueRequests := QueueRequests DestinationQueue @ [Request]\<rparr>)
      else (STATUS_WDF_BUSY, DestinationQueue))"

definition WdfIoQueueRetrieveNextRequest :: "WDFQUEUE \<Rightarrow> (NTSTATUS + WDFREQUEST) \<times> WDFQUEUE" where
  "WdfIoQueueRetrieveNextRequest Queue =
     (if \<not> QueueDispatching Queue then (Inl STATUS_WDF_PAUSED, Queue)
      else
        (case QueueRequests Queue of
           [] \<Rightarrow> (Inl STATUS_NO_MORE_ENTRIES, Queue)
         | r # rs \<Rightarrow> (Inr r, Queue\<lparr>QueueRequests := rs\<rparr>)))"

definition WdfRequestCompleteWithInformation ::
    "WDFREQUEST \<Rightarrow> NTSTATUS \<Rightarrow> nat \<Rightarrow> world \<Rightarrow> world" where
  "WdfRequestCompleteWithInformation Request Status Information w =
     w\<lparr>trace := trace w @ [Complete Request Status Information]\<rparr>"

definition WdfInterruptQueueDpcForIsr :: "world \<Rightarrow> world" where
  "WdfInterruptQueueDpcForIsr w = w\<lparr>trace := trace w @ [QueueDpcForIsr]\<rparr>"

subsection \<open>Control codes and payload sizes (OsrDio\_IOCTL.h)\<close>

text \<open>
  \<open>CTL_CODE\<close>, \<open>METHOD_BUFFERED\<close> and \<open>FILE_ANY_ACCESS\<close> are the platform's: a control
  code is the device type shifted by 16, the access by 14 and the function by 2, joined
  with the method. Each payload structure holds one ULONG, so its size is four bytes.
\<close>

definition CTL_CODE :: "ULONG \<Rightarrow> ULONG \<Rightarrow> ULONG \<Rightarrow> ULONG \<Rightarrow> ULONG" where
  "CTL_CODE DeviceType Function Method Access =
     push_bit 16 DeviceType OR push_bit 14 Access OR push_bit 2 Function OR Method"

definition FILE_DEVICE_OSRDIO :: ULONG where
  "FILE_DEVICE_OSRDIO = 0xD056"

definition METHOD_BUFFERED :: ULONG where
  "METHOD_BUFFERED = 0"

definition FILE_ANY_ACCESS :: ULONG where
  "FILE_ANY_ACCESS = 0"

definition IOCTL_OSRDIO_READ :: ULONG where
  "IOCTL_OSRDIO_READ = CTL_CODE FILE_DEVICE_OSRDIO 2049 METHOD_BUFFERED FILE_ANY_ACCESS"

definition IOCTL_OSRDIO_WRITE :: ULONG where
  "IOCTL_OSRDIO_WRITE = CTL_CODE FILE_DEVICE_OSRDIO 2050 METHOD_BUFFERED FILE_ANY_ACCESS"

definition IOCTL_OSRDIO_SET_OUTPUTS :: ULONG where
  "IOCTL_OSRDIO_SET_OUTPUTS = CTL_CODE FILE_DEVICE_OSRDIO 2051 METHOD_BUFFERED FILE_ANY_ACCESS"

definition IOCTL_OSRDIO_WAITFOR_CHANGE :: ULONG where
  "IOCTL_OSRDIO_WAITFOR_CHANGE = CTL_CODE FILE_DEVICE_OSRDIO 2052 METHOD_BUFFERED FILE_ANY_ACCESS"

definition sizeof_OSRDIO_READ_DATA :: nat where
  "sizeof_OSRDIO_READ_DATA = 4"

definition sizeof_OSRDIO_WRITE_DATA :: nat where
  "sizeof_OSRDIO_WRITE_DATA = 4"

definition sizeof_OSRDIO_SET_OUTPUTS_DATA :: nat where
  "sizeof_OSRDIO_SET_OUTPUTS_DATA = 4"

definition sizeof_OSRDIO_CHANGE_DATA :: nat where
  "sizeof_OSRDIO_CHANGE_DATA = 4"

subsection \<open>Power transitions\<close>

definition OsrDioEvtDeviceD0Entry :: "world \<Rightarrow> (NTSTATUS \<times> world) option" where
  "OsrDioEvtDeviceD0Entry w = do {
     w1 \<leftarrow> WRITE_REGISTER_ULONG Static_Digital_Output_Register
             (SavedOutputLineState (devContext w)) w;
     Some (STATUS_SUCCESS, w1)
   }"

definition OsrDioEvtDeviceD0Exit :: "world \<Rightarrow> (NTSTATUS \<times> world) option" where
  "OsrDioEvtDeviceD0Exit w = do {
     (outputLineState, w1) \<leftarrow> READ_REGISTER_ULONG Static_Digital_Input_Register w;
     let outputLineState = outputLineState AND OutputLineMask (devContext w1);
     let w2 = w1\<lparr>devContext := (devContext w1)\<lparr>SavedOutputLineState := outputLineState\<rparr>\<rparr>;
     Some (STATUS_SUCCESS, w2)
   }"

subsection \<open>Programming line direction and change masks\<close>

definition DioUtilProgramLineDirectionAndChangeMasks :: "world \<Rightarrow> world option" where
  "DioUtilProgramLineDirectionAndChangeMasks w = do {
     w1 \<leftarrow> WRITE_REGISTER_ULONG DI_FilterRegister_Port0and1 Filter_Large_All_Lines w;
     w2 \<leftarrow> WRITE_REGISTER_ULONG DI_FilterRegister_Port2and3 Filter_Large_All_Lines w1;
     w3 \<leftarrow> WRITE_REGISTER_ULONG DIO_Direction_Register (OutputLineMask (devContext w2)) w2;
     w4 \<leftarrow> WRITE_REGISTER_ULONG DI_ChangeIrqRE_Register (NOT (OutputLineMask (devContext w3))) w3;
     WRITE_REGISTER_ULONG DI_ChangeIrqFE_Register (NOT (OutputLineMask (devContext w4))) w4
   }"

subsection \<open>Device control\<close>

text \<open>
  One definition for each case of the switch in \<open>OsrDioEvtIoDeviceControl\<close>. A case
  that reaches the label \<open>done\<close> completes the request with its status and byte
  count; the wait-for-change case that forwards the request leaves it in progress.
\<close>

definition case_IOCTL_OSRDIO_READ :: "WDFREQUEST \<Rightarrow> world \<Rightarrow> world option" where
  "case_IOCTL_OSRDIO_READ Request w =
     (let status = WdfRequestRetrieveOutputBuffer Request sizeof_OSRDIO_READ_DATA
      in if \<not> NT_SUCCESS status
         then Some (WdfRequestCompleteWithInformation Request status 0 w)
         else do {
           (CurrentLineState, w1) \<leftarrow> READ_REGISTER_ULONG Static_Digital_Input_Register w;
           Some (WdfRequestCompleteWithInformation
                   (Request\<lparr>ReqOutputData := CurrentLineState\<rparr>)
                   STATUS_SUCCESS sizeof_OSRDIO_READ_DATA w1)
         })"

definition case_IOCTL_OSRDIO_WRITE :: "WDFREQUEST \<Rightarrow> world \<Rightarrow> world option" where
  "case_IOCTL_OSRDIO_WRITE Request w =
     (if OutputLineMask (devContext w) = 0
      then Some (WdfRequestCompleteWithInformation Request STATUS_INVALID_DEVICE_STATE 0 w)
      else
        (let status = WdfRequestRetrieveInputBuffer Request sizeof_OSRDIO_WRITE_DATA
         in if \<not> NT_SUCCESS status
            then Some (WdfRequestCompleteWithInformation Request status 0 w)
            else do {
              let linesToAssert = ReqInputData Request;
              let linesToAssert = linesToAssert AND OutputLineMask (devContext w);
              w1 \<leftarrow> WRITE_REGISTER_ULONG Static_Digital_Output_Register linesToAssert w;
              Some (WdfRequestCompleteWithInformation Request
                      STATUS_SUCCESS sizeof_OSRDIO_WRITE_DATA w1)
            }))"

definition case_IOCTL_OSRDIO_SET_OUTPUTS :: "WDFREQUEST \<Rightarrow> world \<Rightarrow> world option" where
  "case_IOCTL_OSRDIO_SET_OUTPUTS Request w =
     (let status = WdfRequestRetrieveInputBuffer Request sizeof_OSRDIO_SET_OUTPUTS_DATA
      in if \<not> NT_SUCCESS status
         then Some (WdfRequestCompleteWithInformation Request status 0 w)
         else do {
           let w1 = w\<lparr>devContext := (devContext w)\<lparr>OutputLineMask := ReqInputData Request\<rparr>\<rparr>;
           w2 \<leftarrow> DioUtilProgramLineDirectionAndChangeMasks w1;
           Some (WdfRequestCompleteWithInformation Request
                   STATUS_SUCCESS sizeof_OSRDIO_SET_OUTPUTS_DATA w2)
         })"

definition case_IOCTL_OSRDIO_WAITFOR_CHANGE ::
    "WDFREQUEST \<Rightarrow> nat \<Rightarrow> world \<Rightarrow> world option" where
  "case_IOCTL_OSRDIO_WAITFOR_CHANGE Request OutputBufferLength w =
     (if NOT (OutputLineMask (devContext w)) = 0
      then Some (WdfRequestCompleteWithInformation Request STATUS_NONE_MAPPED 0 w)
      else if OutputBufferLength < sizeof_OSRDIO_CHANGE_DATA
      then Some (WdfRequestCompleteWithInformation Request STATUS_INVALID_BUFFER_SIZE 0 w)
      else
        (case WdfRequestForwardToIoQueue Request (PendingQueue (devContext w)) of
           (status, q) \<Rightarrow>
             (let w1 = w\<lparr>devContext := (devContext w)\<lparr>PendingQueue := q\<rparr>\<rparr>
              in if \<not> NT_SUCCESS status
                 then Some (WdfRequestCompleteWithInformation Request status 0 w1)
                 else Some w1)))"

definition OsrDioEvtIoDeviceControl ::
    "WDFREQUEST \<Rightarrow> nat \<Rightarrow> nat \<Rightarrow> ULONG \<Rightarrow> world \<Rightarrow> world option" where
  "OsrDioEvtIoDeviceControl Request OutputBufferLength InputBufferLength IoControlCode w =
     (if IoControlCode = IOCTL_OSRDIO_READ then case_IOCTL_OSRDIO_READ Request w
      else if IoControlCode = IOCTL_OSRDIO_WRITE then case_IOCTL_OSRDIO_WRITE Request w
      else if IoControlCode = IOCTL_OSRDIO_SET_OUTPUTS
      then case_IOCTL_OSRDIO_SET_OUTPUTS Request w
      else if IoControlCode = IOCTL_OSRDIO_WAITFOR_CHANGE
      then case_IOCTL_OSRDIO_WAITFOR_CHANGE Request OutputBufferLength w
      else Some (WdfRequestCompleteWithInformation Request STATUS_INVALID_PARAMETER 0 w))"

subsection \<open>Interrupt service routine and DpcForIsr\<close>

definition OsrDioEvtInterruptIsr :: "world \<Rightarrow> (bool \<times> world) option" where
  "OsrDioEvtInterruptIsr w = do {
     (interruptStatus, w1) \<leftarrow> READ_REGISTER_ULONG Volatile_Interrupt_Status_Register w;
     if interruptStatus AND Vol_Int = 0 then Some (False, w1)
     else do {
       (changeDetectReg, w2) \<leftarrow> READ_REGISTER_ULONG ChangeDetectStatusRegister w1;
       w3 \<leftarrow> (if changeDetectReg AND ChangeDetectStatus = 1
                   \<and> changeDetectReg AND ChangeDetectError = 0
                then do {
                  (lineState, w21) \<leftarrow> READ_REGISTER_ULONG DI_ChangeDetectLatched_Register w2;
                  let w22 = w21\<lparr>devContext :=
                                  (devContext w21)\<lparr>LatchedInputLineState := lineState\<rparr>\<rparr>;
                  Some (WdfInterruptQueueDpcForIsr w22)
                }
                else Some w2);
       w4 \<leftarrow> (if changeDetectReg AND ChangeDetectStatus \<noteq> 0
                then WRITE_REGISTER_ULONG ChangeDetectIRQ_Register
                       ChangeDetectIRQ_Acknowledge w3
                else Some w3);
       w5 \<leftarrow> (if changeDetectReg AND ChangeDetectError \<noteq> 0
                then WRITE_REGISTER_ULONG ChangeDetectIRQ_Register
                       ChangeDetectErrorIRQ_Acknowledge w4
                else Some w4);
       Some (True, w5)
     }
   }"

definition OsrDioEvtInterruptDpc :: "world \<Rightarrow> world" where
  "OsrDioEvtInterruptDpc w =
     (case WdfIoQueueRetrieveNextRequest (PendingQueue (devContext w)) of
        (Inl status, q) \<Rightarrow> w\<lparr>devContext := (devContext w)\<lparr>PendingQueue := q\<rparr>\<rparr>
      | (Inr waitingRequest, q) \<Rightarrow>
          (let w1 = w\<lparr>devContext := (devContext w)\<lparr>PendingQueue := q\<rparr>\<rparr>;
               status = WdfRequestRetrieveOutputBuffer waitingRequest sizeof_OSRDIO_CHANGE_DATA
           in if NT_SUCCESS status
              then WdfRequestCompleteWithInformation
                     (waitingRequest\<lparr>ReqOutputData := LatchedInputLineState (devContext w1)\<rparr>)
                     STATUS_SUCCESS sizeof_OSRDIO_CHANGE_DATA w1
              else WdfRequestCompleteWithInformation waitingRequest status 0 w1))"

subsection \<open>Sample device states\<close>

text \<open>
  A device whose volatile interrupt status has the interrupt-active bit set, whose
  change-detect status has the status bit set and the error bit clear, whose latch holds
  \<open>0xCAFEBABE\<close> and whose input register reads \<open>0xF5\<close>; a silent device, all of
  whose registers read zero; two requests, one with four-byte buffers and one without
  buffers; a queue that hands requests over and a paused queue that does not; and a mapped
  device context over a given output mask and pending queue.
\<close>

definition sample_device :: "nat \<Rightarrow> ULONG" where
  "sample_device off =
     (if off = reg_offset Volatile_Interrupt_Status_Register then 0x80000000
      else if off = reg_offset ChangeDetectStatusRegister then 1
      else if off = reg_offset DI_ChangeDetectLatched_Register then 0xCAFEBABE
      else if off = reg_offset Static_Digital_Input_Register then 0xF5
      else 0)"

definition silent_device :: "nat \<Rightarrow> ULONG" where
  "silent_device off = 0"

definition sample_request :: WDFREQUEST where
  "sample_request =
     \<lparr>ReqId = 1, ReqInputLength = 4, ReqInputData = 0x35,
      ReqOutputLength = 4, ReqOutputData = 0\<rparr>"

definition empty_request :: WDFREQUEST where
  "empty_request =
     \<lparr>ReqId = 2, ReqInputLength = 0, ReqInputData = 0,
      ReqOutputLength = 0, ReqOutputData = 0\<rparr>"

definition sample_queue :: "WDFREQUEST list \<Rightarrow> bool \<Rightarrow> WDFQUEUE" where
  "sample_queue rs accepting =
     \<lparr>QueueRequests = rs, QueueAccepting = accepting, QueueDispatching = True\<rparr>"

definition paused_queue :: "WDFREQUEST list \<Rightarrow> WDFQUEUE" where
  "paused_queue rs =
     \<lparr>QueueRequests = rs, QueueAccepting = True, QueueDispatching = False\<rparr>"

definition sample_context :: "ULONG \<Rightarrow> WDFQUEUE \<Rightarrow> OSRDIO_DEVICE_CONTEXT" where
  "sample_context m q =
     \<lparr>DevBase = Some 4096, MappedLength = 0x80000, PendingQueue = q,
      OutputLineMask = m, SavedOutputLineState = 0, LatchedInputLineState = 0\<rparr>"

definition sample_world :: "(nat \<Rightarrow> ULONG) \<Rightarrow> ULONG \<Rightarrow> WDFQUEUE \<Rightarrow> world" where
  "sample_world dev m q = \<lparr>devContext = sample_context m q, hw_in = dev, trace = []\<rparr>"

section \<open>Auxiliary facts\<close>

text \<open>Register access on a mapped device, the control codes, and the cases of the switch.\<close>

lemma READ_REGISTER_ULONG_mapped:
  "DevBase (devContext w) = Some base \<Longrightarrow>
   READ_REGISTER_ULONG r w =
     Some (hw_in w (reg_offset r), w\<lparr>trace := trace w @ [RegRead r (hw_in w (reg_offset r))]\<rparr>)"
  by (simp add: READ_REGISTER_ULONG_def Let_def)

lemma WRITE_REGISTER_ULONG_mapped:
  "DevBase (devContext w) = Some base \<Longrightarrow>
   WRITE_REGISTER_ULONG r v w = Some (w\<lparr>trace := trace w @ [RegWrite r v]\<rparr>)"
  by (simp add: WRITE_REGISTER_ULONG_def)

lemma last_write_append:
  "last_write off (xs @ ys) =
     (case last_write off ys of Some v \<Rightarrow> Some v | None \<Rightarrow> last_write off xs)"
  by (induction off xs rule: last_write.induct) (auto split: option.splits)

lemma ioctl_code_values:
  "IOCTL_OSRDIO_READ = 0xD0562004"
  "IOCTL_OSRDIO_WRITE = 0xD0562008"
  "IOCTL_OSRDIO_SET_OUTPUTS = 0xD056200C"
  "IOCTL_OSRDIO_WAITFOR_CHANGE = 0xD0562010"
  by (simp_all add: IOCTL_OSRDIO_READ_def IOCTL_OSRDIO_WRITE_def IOCTL_OSRDIO_SET_OUTPUTS_def
      IOCTL_OSRDIO_WAITFOR_CHANGE_def CTL_CODE_def FILE_DEVICE_OSRDIO_def METHOD_BUFFERED_def
      FILE_ANY_ACCESS_def)

lemma ioctl_read_case:
  "OsrDioEvtIoDeviceControl Request obl ibl IOCTL_OSRDIO_READ w = case_IOCTL_OSRDIO_READ Request w"
  by (simp add: OsrDioEvtIoDeviceControl_def)

lemma ioctl_write_case:
  "OsrDioEvtIoDeviceControl Request obl ibl IOCTL_OSRDIO_WRITE w = case_IOCTL_OSRDIO_WRITE Request w"
  by (simp add: OsrDioEvtIoDeviceControl_def ioctl_code_values)

lemma ioctl_set_outputs_case:
  "OsrDioEvtIoDeviceControl Request obl ibl IOCTL_OSRDIO_SET_OUTPUTS w =
     case_IOCTL_OSRDIO_SET_OUTPUTS Request w"
  by (simp add: OsrDioEvtIoDeviceControl_def ioctl_code_values)

lemma ioctl_waitfor_case:
  "OsrDioEvtIoDeviceControl Request obl ibl IOCTL_OSRDIO_WAITFOR_CHANGE w =
     case_IOCTL_OSRDIO_WAITFOR_CHANGE Request obl w"
  by (simp add: OsrDioEvtIoDeviceControl_def ioctl_code_values)

lemma retrieve_input_ok:
  "4 \<le> ReqInputLength Request \<Longrightarrow> WdfRequestRetrieveInputBuffer Request 4 = STATUS_SUCCESS"
  by (simp add: WdfRequestRetrieveInputBuffer_def)

lemma retrieve_output_ok:
  "4 \<le> ReqOutputLength Request \<Longrightarrow> WdfRequestRetrieveOutputBuffer Request 4 = STATUS_SUCCESS"
  by (simp add: WdfRequestRetrieveOutputBuffer_def)

lemma retrieve_output_short:
  "ReqOutputLength Request < 4 \<Longrightarrow>
   WdfRequestRetrieveOutputBuffer Request 4 = STATUS_BUFFER_TOO_SMALL"
  by (simp add: WdfRequestRetrieveOutputBuffer_def)

lemma D0Exit_mapped:
  assumes "DevBase (devContext w) = Some base"
  shows "OsrDioEvtDeviceD0Exit w =
     Some (STATUS_SUCCESS,
           w\<lparr>devContext := (devContext w)\<lparr>SavedOutputLineState :=
                 hw_in w (reg_offset Static_Digital_Input_Register) AND OutputLineMask (devContext w)\<rparr>,
             trace := trace w @ [RegRead Static_Digital_Input_Register
                                   (hw_in w (reg_offset Static_Digital_Input_Register))]\<rparr>)"
  using assms by (simp add: OsrDioEvtDeviceD0Exit_def READ_REGISTER_ULONG_mapped)

lemma program_masks_mapped:
  assumes "DevBase (devContext w) = Some base"
  shows "DioUtilProgramLineDirectionAndChangeMasks w =
     Some (w\<lparr>trace := trace w @
              [RegWrite DI_FilterRegister_Port0and1 0xFFFFFFFF,
               RegWrite DI_FilterRegister_Port2and3 0xFFFFFFFF,
               RegWrite DIO_Direction_Register (OutputLineMask (devContext w)),
               RegWrite DI_ChangeIrqRE_Register (NOT (OutputLineMask (devContext w))),
               RegWrite DI_ChangeIrqFE_Register (NOT (OutputLineMask (devContext w)))]\<rparr>)"
  using assms
  by (simp add: DioUtilProgramLineDirectionAndChangeMasks_def WRITE_REGISTER_ULONG_mapped
      Filter_Large_All_Lines_def)

lemma and_status_bit: "(x :: ULONG) AND ChangeDetectStatus \<noteq> 0 \<Longrightarrow> x AND ChangeDetectStatus = 1"
  by (simp add: ChangeDetectStatus_def BIT_NUMBER_def and_one_eq split: if_splits)

lemma not_eq_zero_iff: "(NOT (m :: ULONG) = 0) = (m = 0xFFFFFFFF)"
proof
  assume "NOT m = 0"
  then have "NOT (NOT m) = NOT 0" by simp
  then show "m = 0xFFFFFFFF" by simp
next
  assume "m = 0xFFFFFFFF"
  then show "NOT m = 0" by simp
qed

lemma waitfor_none_mapped:
  "OutputLineMask (devContext w) = 0xFFFFFFFF \<Longrightarrow>
   case_IOCTL_OSRDIO_WAITFOR_CHANGE Request obl w =
     Some (w\<lparr>trace := trace w @ [Complete Request STATUS_NONE_MAPPED 0]\<rparr>)"
  by (simp add: case_IOCTL_OSRDIO_WAITFOR_CHANGE_def WdfRequestCompleteWithInformation_def)

lemma waitfor_short_buffer:
  "OutputLineMask (devContext w) \<noteq> 0xFFFFFFFF \<Longrightarrow> obl < 4 \<Longrightarrow>
   case_IOCTL_OSRDIO_WAITFOR_CHANGE Request obl w =
     Some (w\<lparr>trace := trace w @ [Complete Request STATUS_INVALID_BUFFER_SIZE 0]\<rparr>)"
  by (simp add: case_IOCTL_OSRDIO_WAITFOR_CHANGE_def WdfRequestCompleteWithInformation_def
      not_eq_zero_iff sizeof_OSRDIO_CHANGE_DATA_def)

lemma waitfor_forwarded:
  "OutputLineMask (devContext w) \<noteq> 0xFFFFFFFF \<Longrightarrow> 4 \<le> obl \<Longrightarrow>
   QueueAccepting (PendingQueue (devContext w)) \<Longrightarrow>
   case_IOCTL_OSRDIO_WAITFOR_CHANGE Request obl w =
     Some (w\<lparr>devContext := (devContext w)\<lparr>PendingQueue :=
             (PendingQueue (devContext w))\<lparr>QueueRequests :=
                QueueRequests (PendingQueue (devContext w)) @ [Request]\<rparr>\<rparr>\<rparr>)"
  by (simp add: case_IOCTL_OSRDIO_WAITFOR_CHANGE_def WdfRequestForwardToIoQueue_def
      not_eq_zero_iff sizeof_OSRDIO_CHANGE_DATA_def)

lemma waitfor_refused:
  "OutputLineMask (devContext w) \<noteq> 0xFFFFFFFF \<Longrightarrow> 4 \<le> obl \<Longrightarrow>
   \<not> QueueAccepting (PendingQueue (devContext w)) \<Longrightarrow>
   case_IOCTL_OSRDIO_WAITFOR_CHANGE Request obl w =
     Some (w\<lparr>trace := trace w @ [Complete Request STATUS_WDF_BUSY 0]\<rparr>)"
  by (simp add: case_IOCTL_OSRDIO_WAITFOR_CHANGE_def WdfRequestForwardToIoQueue_def
      not_eq_zero_iff sizeof_OSRDIO_CHANGE_DATA_def WdfRequestCompleteWithInformation_def)

lemma world_trace_neq:
  "trace a \<noteq> trace b \<Longrightarrow> ((a :: world) = b) = False"
  by auto

section \<open>Interrupt service routine\<close>

text \<open>
  Claim C1. When the read of the volatile interrupt status register has the \<open>Vol_Int\<close>
  bit set, and the one read of the change-detect status register has the status bit set
  and the error bit clear, the ISR returns TRUE after exactly these steps, in this order:
  it reads the two status registers, reads the latched-input register, stores that value
  in \<open>LatchedInputLineState\<close>, asks once for the DpcForIsr, and writes
  \<open>ChangeDetectIRQ_Acknowledge\<close> once to the change-detect IRQ register. Nothing else
  of the device context changes.
\<close>

theorem isr_change_detected:
  assumes "DevBase (devContext w) = Some base"
    and "hw_in w (reg_offset Volatile_Interrupt_Status_Register) AND Vol_Int \<noteq> 0"
    and "hw_in w (reg_offset ChangeDetectStatusRegister) AND ChangeDetectStatus \<noteq> 0"
    and "hw_in w (reg_offset ChangeDetectStatusRegister) AND ChangeDetectError = 0"
  shows "OsrDioEvtInterruptIsr w =
           Some (True,
                 w\<lparr>devContext := (devContext w)\<lparr>LatchedInputLineState :=
                       hw_in w (reg_offset DI_ChangeDetectLatched_Register)\<rparr>,
                   trace := trace w @
                     [RegRead Volatile_Interrupt_Status_Register
                        (hw_in w (reg_offset Volatile_Interrupt_Status_Register)),
                      RegRead ChangeDetectStatusRegister
                        (hw_in w (reg_offset ChangeDetectStatusRegister)),
                      RegRead DI_ChangeDetectLatched_Register
                        (hw_in w (reg_offset DI_ChangeDetectLatched_Register)),
                      QueueDpcForIsr,
                      RegWrite ChangeDetectIRQ_Register ChangeDetectIRQ_Acknowledge]\<rparr>)"
  using assms and_status_bit [OF assms(3)]
  by (simp add: OsrDioEvtInterruptIsr_def READ_REGISTER_ULONG_mapped WRITE_REGISTER_ULONG_mapped
      WdfInterruptQueueDpcForIsr_def)

theorem isr_change_detected_witness:
  "OsrDioEvtInterruptIsr (sample_world sample_device 0x0F (sample_queue [] True)) =
     Some (True,
           \<lparr>devContext = (sample_context 0x0F (sample_queue [] True))
                            \<lparr>LatchedInputLineState := 0xCAFEBABE\<rparr>,
            hw_in = sample_device,
            trace = [RegRead Volatile_Interrupt_Status_Register 0x80000000,
                     RegRead ChangeDetectStatusRegister 1,
                     RegRead DI_ChangeDetectLatched_Register 0xCAFEBABE,
                     QueueDpcForIsr,
                     RegWrite ChangeDetectIRQ_Register 1]\<rparr>)"
  using isr_change_detected [of "sample_world sample_device 0x0F (sample_queue [] True)" 4096]
  by (simp add: sample_world_def sample_context_def sample_device_def Vol_Int_def
      ChangeDetectStatus_def ChangeDetectError_def ChangeDetectIRQ_Acknowledge_def
      BIT_NUMBER_def)

text \<open>
  Claim C8. When the read of the volatile interrupt status register has the \<open>Vol_Int\<close>
  bit clear, the ISR returns FALSE and has done nothing but that one read: no register is
  written, no DpcForIsr is asked for, and the device context, \<open>LatchedInputLineState\<close>
  included, is as before.
\<close>

theorem isr_not_mine:
  assumes "DevBase (devContext w) = Some base"
    and "hw_in w (reg_offset Volatile_Interrupt_Status_Register) AND Vol_Int = 0"
  shows "OsrDioEvtInterruptIsr w =
           Some (False,
                 w\<lparr>trace := trace w @
                     [RegRead Volatile_Interrupt_Status_Register
                        (hw_in w (reg_offset Volatile_Interrupt_Status_Register))]\<rparr>)"
  using assms
  by (simp add: OsrDioEvtInterruptIsr_def READ_REGISTER_ULONG_mapped)

theorem isr_not_mine_witness:
  "OsrDioEvtInterruptIsr (sample_world silent_device 0x0F (sample_queue [] True)) =
     Some (False,
           \<lparr>devContext = sample_context 0x0F (sample_queue [] True),
            hw_in = silent_device,
            trace = [RegRead Volatile_Interrupt_Status_Register 0]\<rparr>)"
  using isr_not_mine [of "sample_world silent_device 0x0F (sample_queue [] True)" 4096]
  by (simp add: sample_world_def sample_context_def silent_device_def)

section \<open>DpcForIsr\<close>

text \<open>
  Claim C2, amended. One run of the DpcForIsr, for every state of the pending queue. When
  the queue is empty, or does not hand requests over, the retrieval fails and the run
  changes nothing, whatever the queue holds. When the queue hands requests over and is not
  empty, the run removes the request at the head of the queue, the oldest one, and
  completes it exactly once: with \<open>STATUS_SUCCESS\<close>, the size of the payload and the
  current \<open>LatchedInputLineState\<close> in its output buffer when the output buffer can be
  retrieved, and with the status of the failed retrieval and zero bytes when it cannot.
\<close>

theorem dpc_outcomes:
  "(QueueRequests (PendingQueue (devContext w)) = [] \<longrightarrow> OsrDioEvtInterruptDpc w = w)
   \<and> (\<not> QueueDispatching (PendingQueue (devContext w)) \<longrightarrow> OsrDioEvtInterruptDpc w = w)
   \<and> (QueueDispatching (PendingQueue (devContext w))
        \<and> QueueRequests (PendingQueue (devContext w)) = r # rs
        \<and> NT_SUCCESS (WdfRequestRetrieveOutputBuffer r sizeof_OSRDIO_CHANGE_DATA) \<longrightarrow>
       OsrDioEvtInterruptDpc w =
         w\<lparr>devContext := (devContext w)\<lparr>PendingQueue :=
               (PendingQueue (devContext w))\<lparr>QueueRequests := rs\<rparr>\<rparr>,
           trace := trace w @
             [Complete (r\<lparr>ReqOutputData := LatchedInputLineState (devContext w)\<rparr>)
                STATUS_SUCCESS sizeof_OSRDIO_CHANGE_DATA]\<rparr>)
   \<and> (QueueDispatching (PendingQueue (devContext w))
        \<and> QueueRequests (PendingQueue (devContext w)) = r # rs
        \<and> \<not> NT_SUCCESS (WdfRequestRetrieveOutputBuffer r sizeof_OSRDIO_CHANGE_DATA) \<longrightarrow>
       OsrDioEvtInterruptDpc w =
         w\<lparr>devContext := (devContext w)\<lparr>PendingQueue :=
               (PendingQueue (devContext w))\<lparr>QueueRequests := rs\<rparr>\<rparr>,
           trace := trace w @
             [Complete r (WdfRequestRetrieveOutputBuffer r sizeof_OSRDIO_CHANGE_DATA) 0]\<rparr>)"
  by (simp add: OsrDioEvtInterruptDpc_def WdfIoQueueRetrieveNextRequest_def
      WdfRequestCompleteWithInformation_def Let_def)

theorem dpc_outcomes_witness:
  "OsrDioEvtInterruptDpc (sample_world sample_device 0 (sample_queue [] True))
     = sample_world sample_device 0 (sample_queue [] True)
   \<and> OsrDioEvtInterruptDpc
        (sample_world sample_device 0 (paused_queue [sample_request, empty_request]))
     = sample_world sample_device 0 (paused_queue [sample_request, empty_request])
   \<and> OsrDioEvtInterruptDpc
        ((sample_world sample_device 0 (sample_queue [sample_request, empty_request] True))
           \<lparr>devContext := (sample_context 0 (sample_queue [sample_request, empty_request] True))
                            \<lparr>LatchedInputLineState := 0xCAFEBABE\<rparr>\<rparr>)
     = \<lparr>devContext = (sample_context 0 (sample_queue [empty_request] True))
                        \<lparr>LatchedInputLineState := 0xCAFEBABE\<rparr>,
        hw_in = sample_device,
        trace = [Complete (sample_request\<lparr>ReqOutputData := 0xCAFEBABE\<rparr>) STATUS_SUCCESS 4]\<rparr>
   \<and> OsrDioEvtInterruptDpc
        (sample_world sample_device 0 (sample_queue [empty_request, sample_request] True))
     = \<lparr>devContext = sample_context 0 (sample_queue [sample_request] True),
        hw_in = sample_device,
        trace = [Complete empty_request STATUS_BUFFER_TOO_SMALL 0]\<rparr>"
  using dpc_outcomes
          [of "sample_world sample_device 0 (sample_queue [] True)" sample_request "[]"]
        dpc_outcomes
          [of "sample_world sample_device 0 (paused_queue [sample_request, empty_request])"
              sample_request "[empty_request]"]
        dpc_outcomes
          [of "(sample_world sample_device 0 (sample_queue [sample_request, empty_request] True))
                 \<lparr>devContext :=
                    (sample_context 0 (sample_queue [sample_request, empty_request] True))
                      \<lparr>LatchedInputLineState := 0xCAFEBABE\<rparr>\<rparr>"
              sample_request "[empty_request]"]
        dpc_outcomes
          [of "sample_world sample_device 0 (sample_queue [empty_request, sample_request] True)"
              empty_request "[sample_request]"]
  by (simp add: sample_world_def sample_context_def sample_queue_def paused_queue_def
      sample_request_def empty_request_def WdfRequestRetrieveOutputBuffer_def
      sizeof_OSRDIO_CHANGE_DATA_def)

text \<open>
  The claim as first stated fails where the pending queue holds a request but does not
  hand requests over: the queue is not empty, yet the run removes and completes nothing.
\<close>

theorem dpc_counterexample:
  "QueueRequests (PendingQueue (devContext
       (sample_world sample_device 0 (paused_queue [sample_request])))) = [sample_request]
   \<and> OsrDioEvtInterruptDpc (sample_world sample_device 0 (paused_queue [sample_request]))
       = sample_world sample_device 0 (paused_queue [sample_request])"
  by (simp add: OsrDioEvtInterruptDpc_def WdfIoQueueRetrieveNextRequest_def sample_world_def
      sample_context_def paused_queue_def)

section \<open>Device control\<close>

text \<open>
  Claim C3. A write request that carries the value \<open>v\<close> (an input buffer of at least
  the size of the payload), on a mapped device whose \<open>OutputLineMask\<close> is not zero,
  writes exactly \<open>v AND OutputLineMask\<close> to the output register and completes with
  success. No bit outside \<open>OutputLineMask\<close> is set in the value written.
\<close>

theorem write_outputs_masked:
  assumes "DevBase (devContext w) = Some base"
    and "OutputLineMask (devContext w) \<noteq> 0"
    and "sizeof_OSRDIO_WRITE_DATA \<le> ReqInputLength Request"
    and "ReqInputData Request = v"
  shows "OsrDioEvtIoDeviceControl Request obl ibl IOCTL_OSRDIO_WRITE w =
           Some (w\<lparr>trace := trace w @
                   [RegWrite Static_Digital_Output_Register (v AND OutputLineMask (devContext w)),
                    Complete Request STATUS_SUCCESS sizeof_OSRDIO_WRITE_DATA]\<rparr>)
         \<and> (v AND OutputLineMask (devContext w)) AND NOT (OutputLineMask (devContext w)) = 0"
  using assms
  by (simp add: ioctl_write_case case_IOCTL_OSRDIO_WRITE_def sizeof_OSRDIO_WRITE_DATA_def
      retrieve_input_ok WRITE_REGISTER_ULONG_mapped WdfRequestCompleteWithInformation_def
      and.assoc)

theorem write_outputs_masked_witness:
  "OsrDioEvtIoDeviceControl sample_request 0 4 IOCTL_OSRDIO_WRITE
     (sample_world sample_device 0x0F (sample_queue [] True)) =
     Some \<lparr>devContext = sample_context 0x0F (sample_queue [] True),
           hw_in = sample_device,
           trace = [RegWrite Static_Digital_Output_Register 5,
                    Complete sample_request STATUS_SUCCESS 4]\<rparr>"
  using write_outputs_masked
          [of "sample_world sample_device 0x0F (sample_queue [] True)" 4096 sample_request
              "0x35" 0 4]
  by (simp add: sample_world_def sample_context_def sample_request_def
      sizeof_OSRDIO_WRITE_DATA_def)

text \<open>
  Claim C4. A write request while \<open>OutputLineMask\<close> is zero is completed with
  \<open>STATUS_INVALID_DEVICE_STATE\<close> and zero bytes. The completion is the only thing that
  happens: no register is read or written, and the device context is unchanged. The check
  comes before any register access, so this holds whether or not the device is mapped.
\<close>

theorem write_outputs_invalid_state:
  assumes "OutputLineMask (devContext w) = 0"
  shows "OsrDioEvtIoDeviceControl Request obl ibl IOCTL_OSRDIO_WRITE w =
           Some (w\<lparr>trace := trace w @ [Complete Request STATUS_INVALID_DEVICE_STATE 0]\<rparr>)"
  using assms
  by (simp add: ioctl_write_case case_IOCTL_OSRDIO_WRITE_def
      WdfRequestCompleteWithInformation_def)

theorem write_outputs_invalid_state_witness:
  "OsrDioEvtIoDeviceControl sample_request 0 4 IOCTL_OSRDIO_WRITE
     (sample_world sample_device 0 (sample_queue [] True)) =
     Some \<lparr>devContext = sample_context 0 (sample_queue [] True),
           hw_in = sample_device,
           trace = [Complete sample_request STATUS_INVALID_DEVICE_STATE 0]\<rparr>"
  using write_outputs_invalid_state
          [of "sample_world sample_device 0 (sample_queue [] True)" sample_request 0 4]
  by (simp add: sample_world_def sample_context_def)

text \<open>
  Claim C5. Setting the output mask to \<open>m\<close> and then programming line direction and
  change masks writes, in this order, the two filter registers, the direction register
  with \<open>m\<close>, the rising-edge mask with \<open>NOT m\<close> and the falling-edge mask with
  \<open>NOT m\<close>. The set-outputs request does both steps and then completes with success.
  After it the direction register holds \<open>m\<close> and both edge masks hold \<open>NOT m\<close>.
\<close>

theorem set_outputs_programs_masks:
  assumes "DevBase (devContext w) = Some base"
    and "sizeof_OSRDIO_SET_OUTPUTS_DATA \<le> ReqInputLength Request"
    and "ReqInputData Request = m"
  shows "(let programmed =
                [RegWrite DI_FilterRegister_Port0and1 Filter_Large_All_Lines,
                 RegWrite DI_FilterRegister_Port2and3 Filter_Large_All_Lines,
                 RegWrite DIO_Direction_Register m,
                 RegWrite DI_ChangeIrqRE_Register (NOT m),
                 RegWrite DI_ChangeIrqFE_Register (NOT m)];
              w1 = w\<lparr>devContext := (devContext w)\<lparr>OutputLineMask := m\<rparr>\<rparr>
          in DioUtilProgramLineDirectionAndChangeMasks w1 =
               Some (w1\<lparr>trace := trace w @ programmed\<rparr>)
             \<and> OsrDioEvtIoDeviceControl Request obl ibl IOCTL_OSRDIO_SET_OUTPUTS w =
                 Some (w1\<lparr>trace := trace w @ programmed @
                          [Complete Request STATUS_SUCCESS sizeof_OSRDIO_SET_OUTPUTS_DATA]\<rparr>)
             \<and> last_write (reg_offset DIO_Direction_Register) (trace w @ programmed) = Some m
             \<and> last_write (reg_offset DI_ChangeIrqRE_Register) (trace w @ programmed)
                 = Some (NOT m)
             \<and> last_write (reg_offset DI_ChangeIrqFE_Register) (trace w @ programmed)
                 = Some (NOT m))"
  using assms
  by (simp add: Let_def ioctl_set_outputs_case case_IOCTL_OSRDIO_SET_OUTPUTS_def
      sizeof_OSRDIO_SET_OUTPUTS_DATA_def retrieve_input_ok program_masks_mapped
      WdfRequestCompleteWithInformation_def Filter_Large_All_Lines_def last_write_append)

theorem set_outputs_programs_masks_witness:
  "OsrDioEvtIoDeviceControl sample_request 0 4 IOCTL_OSRDIO_SET_OUTPUTS
     (sample_world sample_device 0 (sample_queue [] True)) =
     Some \<lparr>devContext = sample_context 0x35 (sample_queue [] True),
           hw_in = sample_device,
           trace = [RegWrite DI_FilterRegister_Port0and1 0xFFFFFFFF,
                    RegWrite DI_FilterRegister_Port2and3 0xFFFFFFFF,
                    RegWrite DIO_Direction_Register 0x35,
                    RegWrite DI_ChangeIrqRE_Register 0xFFFFFFCA,
                    RegWrite DI_ChangeIrqFE_Register 0xFFFFFFCA,
                    Complete sample_request STATUS_SUCCESS 4]\<rparr>"
  using set_outputs_programs_masks
          [of "sample_world sample_device 0 (sample_queue [] True)" 4096 sample_request
              "0x35" 0 4]
  by (simp add: sample_world_def sample_context_def sample_request_def Let_def
      sizeof_OSRDIO_SET_OUTPUTS_DATA_def Filter_Large_All_Lines_def)

text \<open>
  Claim C6, amended. A wait-for-change request is completed with \<open>STATUS_NONE_MAPPED\<close>
  exactly when \<open>OutputLineMask\<close> is \<open>0xFFFFFFFF\<close>. For every other mask and an output
  buffer length of at least the size of the payload, the request is appended to the
  pending queue and left in progress when the queue accepts it; when the queue refuses it,
  the request is not queued and is completed with the status of the failed forwarding and
  zero bytes.
\<close>

theorem wait_for_change_outcomes:
  "((OsrDioEvtIoDeviceControl Request obl ibl IOCTL_OSRDIO_WAITFOR_CHANGE w =
       Some (w\<lparr>trace := trace w @ [Complete Request STATUS_NONE_MAPPED 0]\<rparr>))
      = (OutputLineMask (devContext w) = 0xFFFFFFFF))
   \<and> (OutputLineMask (devContext w) \<noteq> 0xFFFFFFFF \<and> sizeof_OSRDIO_CHANGE_DATA \<le> obl
        \<and> QueueAccepting (PendingQueue (devContext w)) \<longrightarrow>
       OsrDioEvtIoDeviceControl Request obl ibl IOCTL_OSRDIO_WAITFOR_CHANGE w =
         Some (w\<lparr>devContext := (devContext w)\<lparr>PendingQueue :=
                 (PendingQueue (devContext w))\<lparr>QueueRequests :=
                    QueueRequests (PendingQueue (devContext w)) @ [Request]\<rparr>\<rparr>\<rparr>))
   \<and> (OutputLineMask (devContext w) \<noteq> 0xFFFFFFFF \<and> sizeof_OSRDIO_CHANGE_DATA \<le> obl
        \<and> \<not> QueueAccepting (PendingQueue (devContext w)) \<longrightarrow>
       OsrDioEvtIoDeviceControl Request obl ibl IOCTL_OSRDIO_WAITFOR_CHANGE w =
         Some (w\<lparr>trace := trace w @ [Complete Request STATUS_WDF_BUSY 0]\<rparr>))"
proof (intro conjI impI)
  show "(OsrDioEvtIoDeviceControl Request obl ibl IOCTL_OSRDIO_WAITFOR_CHANGE w =
       Some (w\<lparr>trace := trace w @ [Complete Request STATUS_NONE_MAPPED 0]\<rparr>))
      = (OutputLineMask (devContext w) = 0xFFFFFFFF)"
  proof (cases "OutputLineMask (devContext w) = 0xFFFFFFFF")
    case True
    then show ?thesis by (simp add: ioctl_waitfor_case waitfor_none_mapped)
  next
    case mask: False
    let ?target = "w\<lparr>trace := trace w @ [Complete Request STATUS_NONE_MAPPED 0]\<rparr>"
    show ?thesis
    proof (cases "obl < 4")
      case True
      have "(w\<lparr>trace := trace w @ [Complete Request STATUS_INVALID_BUFFER_SIZE 0]\<rparr> = ?target)
              = False"
        by (rule world_trace_neq) simp
      with mask True show ?thesis
        by (simp add: ioctl_waitfor_case waitfor_short_buffer)
    next
      case False
      then have len: "4 \<le> obl" by simp
      show ?thesis
      proof (cases "QueueAccepting (PendingQueue (devContext w))")
        case True
        have "(w\<lparr>devContext := (devContext w)\<lparr>PendingQueue :=
                 (PendingQueue (devContext w))\<lparr>QueueRequests :=
                    QueueRequests (PendingQueue (devContext w)) @ [Request]\<rparr>\<rparr>\<rparr> = ?target)
               = False"
          by (rule world_trace_neq) simp
        with mask len True show ?thesis
          by (simp add: ioctl_waitfor_case waitfor_forwarded)
      next
        case False
        have "(w\<lparr>trace := trace w @ [Complete Request STATUS_WDF_BUSY 0]\<rparr> = ?target) = False"
          by (rule world_trace_neq) simp
        with mask len False show ?thesis
          by (simp add: ioctl_waitfor_case waitfor_refused)
      qed
    qed
  qed
next
  assume "OutputLineMask (devContext w) \<noteq> 0xFFFFFFFF \<and> sizeof_OSRDIO_CHANGE_DATA \<le> obl
        \<and> QueueAccepting (PendingQueue (devContext w))"
  then show "OsrDioEvtIoDeviceControl Request obl ibl IOCTL_OSRDIO_WAITFOR_CHANGE w =
         Some (w\<lparr>devContext := (devContext w)\<lparr>PendingQueue :=
                 (PendingQueue (devContext w))\<lparr>QueueRequests :=
                    QueueRequests (PendingQueue (devContext w)) @ [Request]\<rparr>\<rparr>\<rparr>)"
    by (simp add: ioctl_waitfor_case waitfor_forwarded sizeof_OSRDIO_CHANGE_DATA_def)
next
  assume "OutputLineMask (devContext w) \<noteq> 0xFFFFFFFF \<and> sizeof_OSRDIO_CHANGE_DATA \<le> obl
        \<and> \<not> QueueAccepting (PendingQueue (devContext w))"
  then show "OsrDioEvtIoDeviceControl Request obl ibl IOCTL_OSRDIO_WAITFOR_CHANGE w =
         Some (w\<lparr>trace := trace w @ [Complete Request STATUS_WDF_BUSY 0]\<rparr>)"
    by (simp add: ioctl_waitfor_case waitfor_refused sizeof_OSRDIO_CHANGE_DATA_def)
qed

theorem wait_for_change_outcomes_witness:
  "OsrDioEvtIoDeviceControl sample_request 4 0 IOCTL_OSRDIO_WAITFOR_CHANGE
     (sample_world sample_device 0xFFFFFFFF (sample_queue [] True)) =
     Some \<lparr>devContext = sample_context 0xFFFFFFFF (sample_queue [] True),
           hw_in = sample_device,
           trace = [Complete sample_request STATUS_NONE_MAPPED 0]\<rparr>
   \<and> OsrDioEvtIoDeviceControl sample_request 4 0 IOCTL_OSRDIO_WAITFOR_CHANGE
       (sample_world sample_device 0x0F (sample_queue [empty_request] True)) =
       Some (sample_world sample_device 0x0F (sample_queue [empty_request, sample_request] True))
   \<and> OsrDioEvtIoDeviceControl sample_request 4 0 IOCTL_OSRDIO_WAITFOR_CHANGE
       (sample_world sample_device 0x0F (sample_queue [empty_request] False)) =
       Some \<lparr>devContext = sample_context 0x0F (sample_queue [empty_request] False),
             hw_in = sample_device,
             trace = [Complete sample_request STATUS_WDF_BUSY 0]\<rparr>"
  using wait_for_change_outcomes
          [of sample_request 4 0 "sample_world sample_device 0xFFFFFFFF (sample_queue [] True)"]
        wait_for_change_outcomes
          [of sample_request 4 0
              "sample_world sample_device 0x0F (sample_queue [empty_request] True)"]
        wait_for_change_outcomes
          [of sample_request 4 0
              "sample_world sample_device 0x0F (sample_queue [empty_request] False)"]
  by (simp add: sample_world_def sample_context_def sample_queue_def
      sizeof_OSRDIO_CHANGE_DATA_def)

text \<open>
  The claim as first stated fails where the pending queue does not accept requests: the
  mask is not \<open>0xFFFFFFFF\<close> and the buffer is large enough, yet the request is not
  queued and is completed with \<open>STATUS_WDF_BUSY\<close>.
\<close>

theorem wait_for_change_counterexample:
  "OutputLineMask (devContext (sample_world sample_device 0x0F (sample_queue [] False)))
     \<noteq> 0xFFFFFFFF
   \<and> sizeof_OSRDIO_CHANGE_DATA \<le> 4
   \<and> OsrDioEvtIoDeviceControl sample_request 4 0 IOCTL_OSRDIO_WAITFOR_CHANGE
       (sample_world sample_device 0x0F (sample_queue [] False)) =
       Some \<lparr>devContext = sample_context 0x0F (sample_queue [] False),
             hw_in = sample_device,
             trace = [Complete sample_request STATUS_WDF_BUSY 0]\<rparr>"
  by (simp add: ioctl_waitfor_case case_IOCTL_OSRDIO_WAITFOR_CHANGE_def sample_world_def
      sample_context_def sample_queue_def sizeof_OSRDIO_CHANGE_DATA_def
      WdfRequestForwardToIoQueue_def WdfRequestCompleteWithInformation_def)

text \<open>
  Claim C10. The wait-for-change case tests the mask before the buffer length. With
  \<open>OutputLineMask = 0xFFFFFFFF\<close> the request is completed with \<open>STATUS_NONE_MAPPED\<close>
  whatever the buffer length, so also when the buffer is too short, and then not with
  \<open>STATUS_INVALID_BUFFER_SIZE\<close>. With another mask and a buffer that is too short it is
  completed with \<open>STATUS_INVALID_BUFFER_SIZE\<close>. In both cases the completion with zero
  bytes is all that happens: the pending queue and the rest of the device context are
  unchanged and no register is accessed.
\<close>

theorem wait_for_change_check_order:
  "(OutputLineMask (devContext w) = 0xFFFFFFFF \<longrightarrow>
      OsrDioEvtIoDeviceControl Request obl ibl IOCTL_OSRDIO_WAITFOR_CHANGE w =
        Some (w\<lparr>trace := trace w @ [Complete Request STATUS_NONE_MAPPED 0]\<rparr>)
      \<and> OsrDioEvtIoDeviceControl Request obl ibl IOCTL_OSRDIO_WAITFOR_CHANGE w \<noteq>
        Some (w\<lparr>trace := trace w @ [Complete Request STATUS_INVALID_BUFFER_SIZE 0]\<rparr>))
   \<and> (OutputLineMask (devContext w) \<noteq> 0xFFFFFFFF \<and> obl < sizeof_OSRDIO_CHANGE_DATA \<longrightarrow>
      OsrDioEvtIoDeviceControl Request obl ibl IOCTL_OSRDIO_WAITFOR_CHANGE w =
        Some (w\<lparr>trace := trace w @ [Complete Request STATUS_INVALID_BUFFER_SIZE 0]\<rparr>))"
proof (intro conjI impI)
  assume m: "OutputLineMask (devContext w) = 0xFFFFFFFF"
  then show res: "OsrDioEvtIoDeviceControl Request obl ibl IOCTL_OSRDIO_WAITFOR_CHANGE w =
        Some (w\<lparr>trace := trace w @ [Complete Request STATUS_NONE_MAPPED 0]\<rparr>)"
    by (simp add: ioctl_waitfor_case waitfor_none_mapped)
  have "(w\<lparr>trace := trace w @ [Complete Request STATUS_NONE_MAPPED 0]\<rparr>
          = w\<lparr>trace := trace w @ [Complete Request STATUS_INVALID_BUFFER_SIZE 0]\<rparr>) = False"
    by (rule world_trace_neq) simp
  with res show "OsrDioEvtIoDeviceControl Request obl ibl IOCTL_OSRDIO_WAITFOR_CHANGE w \<noteq>
        Some (w\<lparr>trace := trace w @ [Complete Request STATUS_INVALID_BUFFER_SIZE 0]\<rparr>)"
    by simp
next
  assume "OutputLineMask (devContext w) \<noteq> 0xFFFFFFFF \<and> obl < sizeof_OSRDIO_CHANGE_DATA"
  then show "OsrDioEvtIoDeviceControl Request obl ibl IOCTL_OSRDIO_WAITFOR_CHANGE w =
        Some (w\<lparr>trace := trace w @ [Complete Request STATUS_INVALID_BUFFER_SIZE 0]\<rparr>)"
    by (simp add: ioctl_waitfor_case waitfor_short_buffer sizeof_OSRDIO_CHANGE_DATA_def)
qed

theorem wait_for_change_check_order_witness:
  "OsrDioEvtIoDeviceControl empty_request 0 0 IOCTL_OSRDIO_WAITFOR_CHANGE
     (sample_world sample_device 0xFFFFFFFF (sample_queue [] True)) =
     Some \<lparr>devContext = sample_context 0xFFFFFFFF (sample_queue [] True),
           hw_in = sample_device,
           trace = [Complete empty_request STATUS_NONE_MAPPED 0]\<rparr>
   \<and> OsrDioEvtIoDeviceControl empty_request 0 0 IOCTL_OSRDIO_WAITFOR_CHANGE
       (sample_world sample_device 0x0F (sample_queue [] True)) =
       Some \<lparr>devContext = sample_context 0x0F (sample_queue [] True),
             hw_in = sample_device,
             trace = [Complete empty_request STATUS_INVALID_BUFFER_SIZE 0]\<rparr>"
  using wait_for_change_check_order
          [of "sample_world sample_device 0xFFFFFFFF (sample_queue [] True)" empty_request 0 0]
        wait_for_change_check_order
          [of "sample_world sample_device 0x0F (sample_queue [] True)" empty_request 0 0]
  by (simp add: sample_world_def sample_context_def sizeof_OSRDIO_CHANGE_DATA_def)

text \<open>
  Claim C9, amended. On a mapped device, a read request whose output buffer holds at least
  the size of the payload reads the input register once, returns the raw value in the
  output buffer and completes with success. A read request with a shorter output buffer is
  completed with the status of the failed buffer retrieval and zero bytes, and the input
  register is not read.
\<close>

theorem read_line_state_outcomes:
  "(DevBase (devContext w) = Some base
      \<and> sizeof_OSRDIO_READ_DATA \<le> ReqOutputLength Request \<longrightarrow>
      OsrDioEvtIoDeviceControl Request obl ibl IOCTL_OSRDIO_READ w =
        Some (w\<lparr>trace := trace w @
                [RegRead Static_Digital_Input_Register
                   (hw_in w (reg_offset Static_Digital_Input_Register)),
                 Complete (Request\<lparr>ReqOutputData :=
                             hw_in w (reg_offset Static_Digital_Input_Register)\<rparr>)
                   STATUS_SUCCESS sizeof_OSRDIO_READ_DATA]\<rparr>))
   \<and> (ReqOutputLength Request < sizeof_OSRDIO_READ_DATA \<longrightarrow>
      OsrDioEvtIoDeviceControl Request obl ibl IOCTL_OSRDIO_READ w =
        Some (w\<lparr>trace := trace w @
                [Complete Request
                   (WdfRequestRetrieveOutputBuffer Request sizeof_OSRDIO_READ_DATA) 0]\<rparr>)
      \<and> WdfRequestRetrieveOutputBuffer Request sizeof_OSRDIO_READ_DATA
          = STATUS_BUFFER_TOO_SMALL)"
  by (simp add: ioctl_read_case case_IOCTL_OSRDIO_READ_def sizeof_OSRDIO_READ_DATA_def
      retrieve_output_ok retrieve_output_short READ_REGISTER_ULONG_mapped
      WdfRequestCompleteWithInformation_def)

theorem read_line_state_outcomes_witness:
  "OsrDioEvtIoDeviceControl sample_request 4 0 IOCTL_OSRDIO_READ
     (sample_world sample_device 0x0F (sample_queue [] True)) =
     Some \<lparr>devContext = sample_context 0x0F (sample_queue [] True),
           hw_in = sample_device,
           trace = [RegRead Static_Digital_Input_Register 0xF5,
                    Complete (sample_request\<lparr>ReqOutputData := 0xF5\<rparr>) STATUS_SUCCESS 4]\<rparr>
   \<and> OsrDioEvtIoDeviceControl (sample_request\<lparr>ReqOutputLength := 3\<rparr>) 3 0 IOCTL_OSRDIO_READ
       (sample_world sample_device 0x0F (sample_queue [] True)) =
       Some \<lparr>devContext = sample_context 0x0F (sample_queue [] True),
             hw_in = sample_device,
             trace = [Complete (sample_request\<lparr>ReqOutputLength := 3\<rparr>)
                        STATUS_BUFFER_TOO_SMALL 0]\<rparr>"
  using read_line_state_outcomes
          [of "sample_world sample_device 0x0F (sample_queue [] True)" 4096 sample_request 4 0]
        read_line_state_outcomes
          [of "sample_world sample_device 0x0F (sample_queue [] True)" 4096
              "sample_request\<lparr>ReqOutputLength := 3\<rparr>" 3 0]
  by (simp add: sample_world_def sample_context_def sample_request_def sample_device_def
      sizeof_OSRDIO_READ_DATA_def)

text \<open>
  The claim as first stated fails for a request without an output buffer: the device is
  mapped, yet the read is completed with \<open>STATUS_BUFFER_TOO_SMALL\<close>.
\<close>

theorem read_line_state_counterexample:
  "DevBase (devContext (sample_world sample_device 0x0F (sample_queue [] True))) = Some 4096
   \<and> OsrDioEvtIoDeviceControl empty_request 0 0 IOCTL_OSRDIO_READ
       (sample_world sample_device 0x0F (sample_queue [] True)) =
       Some \<lparr>devContext = sample_context 0x0F (sample_queue [] True),
             hw_in = sample_device,
             trace = [Complete empty_request STATUS_BUFFER_TOO_SMALL 0]\<rparr>"
  by (simp add: ioctl_read_case case_IOCTL_OSRDIO_READ_def sample_world_def sample_context_def
      empty_request_def sizeof_OSRDIO_READ_DATA_def WdfRequestRetrieveOutputBuffer_def
      WdfRequestCompleteWithInformation_def)

section \<open>Power transitions\<close>

text \<open>
  Claim C7. On a mapped device, leaving D0 reads the input register and stores its value
  masked with \<open>OutputLineMask\<close> in \<open>SavedOutputLineState\<close>; entering D0 right after
  writes \<open>SavedOutputLineState\<close> to the output register. So after the pair the output
  register holds the value read from the input register when D0 was left, masked with the
  \<open>OutputLineMask\<close> of that moment.
\<close>

theorem power_cycle_restores_masked_input:
  assumes "DevBase (devContext w) = Some base"
  shows "(let v = hw_in w (reg_offset Static_Digital_Input_Register);
              saved = v AND OutputLineMask (devContext w);
              w1 = w\<lparr>devContext := (devContext w)\<lparr>SavedOutputLineState := saved\<rparr>,
                     trace := trace w @ [RegRead Static_Digital_Input_Register v]\<rparr>;
              w2 = w1\<lparr>trace := trace w1 @ [RegWrite Static_Digital_Output_Register saved]\<rparr>
          in OsrDioEvtDeviceD0Exit w = Some (STATUS_SUCCESS, w1)
             \<and> OsrDioEvtDeviceD0Entry w1 = Some (STATUS_SUCCESS, w2)
             \<and> last_write (reg_offset Static_Digital_Output_Register) (trace w2) = Some saved)"
  using assms
  by (simp add: Let_def D0Exit_mapped OsrDioEvtDeviceD0Entry_def WRITE_REGISTER_ULONG_mapped
      last_write_append)

theorem power_cycle_restores_masked_input_witness:
  "OsrDioEvtDeviceD0Exit (sample_world sample_device 0x0F (sample_queue [] True)) =
     Some (STATUS_SUCCESS,
           \<lparr>devContext = (sample_context 0x0F (sample_queue [] True))
                            \<lparr>SavedOutputLineState := 5\<rparr>,
            hw_in = sample_device,
            trace = [RegRead Static_Digital_Input_Register 0xF5]\<rparr>)
   \<and> OsrDioEvtDeviceD0Entry
        \<lparr>devContext = (sample_context 0x0F (sample_queue [] True))
                         \<lparr>SavedOutputLineState := 5\<rparr>,
         hw_in = sample_device,
         trace = [RegRead Static_Digital_Input_Register 0xF5]\<rparr> =
     Some (STATUS_SUCCESS,
           \<lparr>devContext = (sample_context 0x0F (sample_queue [] True))
                            \<lparr>SavedOutputLineState := 5\<rparr>,
            hw_in = sample_device,
            trace = [RegRead Static_Digital_Input_Register 0xF5,
                     RegWrite Static_Digital_Output_Register 5]\<rparr>)"
  using power_cycle_restores_masked_input
          [of "sample_world sample_device 0x0F (sample_queue [] True)" 4096]
  by (simp add: sample_world_def sample_context_def sample_device_def Let_def)

end
